theory Spec2Isabelle
  imports Complex_Main
begin

section \<open>Python's \<open>decimal\<close> arithmetic under the default context\<close>

text \<open>
  The scoring core of the credit approval system (\<open>credit_system/utils.py\<close>) computes with
  \<open>decimal.Decimal\<close> under Python's default context: precision 28 significant digits,
  rounding \<open>ROUND_HALF_EVEN\<close>, traps for \<open>InvalidOperation\<close>, \<open>DivisionByZero\<close> and
  \<open>Overflow\<close>.  A finite \<open>Decimal\<close> is a signed integer coefficient with a power-of-ten
  exponent, and it is modelled as such: \<open>Dec c e\<close> stands for \<open>c * 10^e\<close>.  The operations
  follow the reference implementation of the library: the exact result is formed on the
  coefficients and then rounded to the context precision.  The constructor \<open>Decimal(x)\<close> does
  not round, so an input may carry any number of digits.  The sign of a zero and the exponent
  limits (\<open>Emax = 999999\<close>, \<open>Emin = -999999\<close>) are not represented: values are taken to stay
  inside that range.
\<close>

datatype decimal = Dec (coeff: int) (expo: int)

datatype error = DivisionByZero | InvalidOperation | OverflowError

datatype rounding = ROUND_HALF_EVEN | ROUND_HALF_UP


text \<open>Sequencing of computations that may raise: the first exception is propagated.\<close>

definition and_then :: "error + 'a \<Rightarrow> ('a \<Rightarrow> error + 'b) \<Rightarrow> error + 'b" where
  "and_then m f = (case m of Inl e \<Rightarrow> Inl e | Inr v \<Rightarrow> f v)"

text \<open>Number of decimal digits of a non-negative integer (\<open>len(str(n))\<close>).\<close>

function digits_from :: "int \<Rightarrow> int \<Rightarrow> int" where
  "digits_from p n = (if 0 < p \<and> p \<le> n then 1 + digits_from (p * 10) n else 0)"
  by pat_completeness auto
termination
  by (relation "measure (\<lambda>(p, n). nat (n + 1 - p))") auto

declare digits_from.simps [simp del]

definition ndigits :: "int \<Rightarrow> int" where
  "ndigits n = 1 + digits_from 10 n"

text \<open>
  \<open>round_div rm c d\<close> is the quotient \<open>c / d\<close> for \<open>d > 0\<close>, rounded to an integer:
  \<open>ROUND_HALF_EVEN\<close> rounds a tie to the even neighbour, \<open>ROUND_HALF_UP\<close> rounds a tie away
  from zero.
\<close>

definition round_div :: "rounding \<Rightarrow> int \<Rightarrow> int \<Rightarrow> int" where
  "round_div rm c d =
     (let q = \<bar>c\<bar> div d; r = \<bar>c\<bar> mod d;
          up = (case rm of
                  ROUND_HALF_EVEN \<Rightarrow> d < 2 * r \<or> (2 * r = d \<and> odd q)
                | ROUND_HALF_UP \<Rightarrow> d \<le> 2 * r)
      in sgn c * (if up then q + 1 else q))"

text \<open>
  Rounding of a result to a precision of \<open>prec\<close> significant digits, ties to even; a carry
  out of the leading digit drops the last digit.  The context precision is 28.
\<close>

definition fix_to :: "int \<Rightarrow> decimal \<Rightarrow> decimal" where
  "fix_to prec x =
     (let c = coeff x; e = expo x; n = ndigits \<bar>c\<bar> in
      if n \<le> prec then x
      else let k = n - prec; c' = round_div ROUND_HALF_EVEN c (10 ^ nat k) in
           if prec < ndigits \<bar>c'\<bar> then Dec (c' div 10) (e + k + 1) else Dec c' (e + k))"

definition dec_fix :: "decimal \<Rightarrow> decimal" where
  "dec_fix x = fix_to 28 x"

text \<open>The exact sum, as the database computes it in \<open>Sum(...)\<close> aggregates.\<close>

definition dec_add_exact :: "decimal \<Rightarrow> decimal \<Rightarrow> decimal" where
  "dec_add_exact a b =
     (let e = min (expo a) (expo b) in
      Dec (coeff a * 10 ^ nat (expo a - e) + coeff b * 10 ^ nat (expo b - e)) e)"

definition dec_neg :: "decimal \<Rightarrow> decimal" where
  "dec_neg a = Dec (- coeff a) (expo a)"

definition dec_add :: "decimal \<Rightarrow> decimal \<Rightarrow> decimal" where
  "dec_add a b = dec_fix (dec_add_exact a b)"

definition dec_sub :: "decimal \<Rightarrow> decimal \<Rightarrow> decimal" where
  "dec_sub a b = dec_fix (dec_add_exact a (dec_neg b))"

definition mul_to :: "int \<Rightarrow> decimal \<Rightarrow> decimal \<Rightarrow> decimal" where
  "mul_to prec a b = fix_to prec (Dec (coeff a * coeff b) (expo a + expo b))"

definition dec_mul :: "decimal \<Rightarrow> decimal \<Rightarrow> decimal" where
  "dec_mul a b = mul_to 28 a b"

text \<open>Comparisons are numeric: the coefficients are compared at a common exponent.\<close>

definition dec_less :: "decimal \<Rightarrow> decimal \<Rightarrow> bool" where
  "dec_less a b =
     (let e = min (expo a) (expo b) in
      coeff a * 10 ^ nat (expo a - e) < coeff b * 10 ^ nat (expo b - e))"

definition dec_is_zero :: "decimal \<Rightarrow> bool" where
  "dec_is_zero a = (coeff a = 0)"

text \<open>The built-in \<open>max(a, b)\<close> returns its first argument unless the second is greater.\<close>

definition py_max :: "decimal \<Rightarrow> decimal \<Rightarrow> decimal" where
  "py_max a b = (if dec_less a b then b else a)"

text \<open>
  Division.  \<open>x / 0\<close> signals \<open>DivisionByZero\<close> and \<open>0 / 0\<close> signals \<open>InvalidOperation\<close>.
  Otherwise the quotient \<open>quot_to\<close> of two non-zero values is formed: the quotient of the
  coefficients is computed with one or two digits more than the precision, an inexact
  quotient is marked in its last digit so that the final rounding cannot see a false tie, and
  an exact quotient is stripped of trailing zeros down to the ideal exponent.
\<close>

function strip_zeros :: "int \<Rightarrow> int \<Rightarrow> int \<Rightarrow> int \<times> int" where
  "strip_zeros q e ideal =
     (if e < ideal \<and> q mod 10 = 0 then strip_zeros (q div 10) (e + 1) ideal else (q, e))"
  by pat_completeness auto
termination
  by (relation "measure (\<lambda>(q, e, ideal). nat (ideal - e))") auto

declare strip_zeros.simps [simp del]

definition quot_to :: "int \<Rightarrow> decimal \<Rightarrow> decimal \<Rightarrow> decimal" where
  "quot_to prec a b =
     (let shift = ndigits \<bar>coeff b\<bar> - ndigits \<bar>coeff a\<bar> + prec + 1;
          e = expo a - expo b - shift;
          n = (if 0 \<le> shift then \<bar>coeff a\<bar> * 10 ^ nat shift else \<bar>coeff a\<bar>);
          d = (if 0 \<le> shift then \<bar>coeff b\<bar> else \<bar>coeff b\<bar> * 10 ^ nat (- shift));
          q = n div d;
          r = n mod d;
          qe = (if r \<noteq> 0 then (if q mod 5 = 0 then q + 1 else q, e)
                else strip_zeros q e (expo a - expo b))
      in fix_to prec (Dec (sgn (coeff a) * sgn (coeff b) * fst qe) (snd qe)))"

definition div_to :: "int \<Rightarrow> decimal \<Rightarrow> decimal \<Rightarrow> error + decimal" where
  "div_to prec a b =
     (if coeff b = 0 then (if coeff a = 0 then Inl InvalidOperation else Inl DivisionByZero)
      else if coeff a = 0 then Inr (Dec 0 (expo a - expo b))
      else Inr (quot_to prec a b))"

definition dec_div :: "decimal \<Rightarrow> decimal \<Rightarrow> error + decimal" where
  "dec_div a b = div_to 28 a b"

text \<open>
  A power with an integer exponent is the one arithmetic operation of the code that can
  return an infinity without raising: zero to a negative power.  The result of a power is
  therefore a \<open>number\<close>.  The sign of the infinity is not represented; no operation below
  depends on it.
\<close>

datatype number = Finite decimal | Infinity

text \<open>
  \<open>x ** n\<close> for an integer \<open>n\<close>, as the C implementation of the module computes it.  A zero
  base gives an invalid operation for \<open>n = 0\<close>, an infinity for \<open>n < 0\<close> and 0 otherwise;
  \<open>x ** 0\<close> is 1.  In all other cases the power is formed by squaring and multiplying along
  the binary digits of \<open>|n|\<close> from the most significant one, every product rounded to a working
  precision of 28 plus the number of digits of \<open>n\<close> plus 2 digits; for \<open>n < 0\<close> the base is
  first replaced by its reciprocal, at one digit more.  The result is rounded to the context
  precision.
\<close>

function bits_below_top :: "int \<Rightarrow> bool list" where
  "bits_below_top n = (if n \<le> 1 then [] else bits_below_top (n div 2) @ [odd n])"
  by pat_completeness auto
termination
  by (relation "measure nat") auto

declare bits_below_top.simps [simp del]

fun pow_bits :: "int \<Rightarrow> decimal \<Rightarrow> decimal \<Rightarrow> bool list \<Rightarrow> decimal" where
  "pow_bits prec base r [] = r"
| "pow_bits prec base r (is_one # bits) =
     (let r2 = mul_to prec r r;
          r3 = (if is_one then mul_to prec r2 base else r2)
      in pow_bits prec base r3 bits)"

definition dec_pow :: "decimal \<Rightarrow> int \<Rightarrow> error + number" where
  "dec_pow x n =
     (if coeff x = 0 then
        (if n = 0 then Inl InvalidOperation
         else if n < 0 then Inr Infinity
         else Inr (Finite (Dec 0 0)))
      else if n = 0 then Inr (Finite (Dec 1 0))
      else
        let workprec = 28 + ndigits \<bar>n\<bar> + 2 + (if n < 0 then 1 else 0);
            tbase = (if n < 0 then quot_to workprec (Dec 1 0) x else x)
        in Inr (Finite (fix_to 28 (pow_bits workprec tbase tbase (bits_below_top \<bar>n\<bar>)))))"

text \<open>
  \<open>x.quantize(Decimal('0.01'), rounding)\<close> is \<open>dec_quantize rounding 2 x\<close> and
  \<open>x.quantize(Decimal('1.'), rounding)\<close> is \<open>dec_quantize rounding 0 x\<close>: the value is brought
  to the given number of decimal places; the operation is invalid when the resulting
  coefficient needs more than \<open>prec\<close> digits, 28 under the default context.
\<close>

definition quantize_to :: "int \<Rightarrow> rounding \<Rightarrow> nat \<Rightarrow> decimal \<Rightarrow> error + decimal" where
  "quantize_to prec rm places x =
     (let c = coeff x; e = expo x; p = int places;
          c' = (if - p \<le> e then c * 10 ^ nat (e + p) else round_div rm c (10 ^ nat (- p - e)))
      in if prec < ndigits \<bar>c'\<bar> then Inl InvalidOperation else Inr (Dec c' (- p)))"

definition dec_quantize :: "rounding \<Rightarrow> nat \<Rightarrow> decimal \<Rightarrow> error + decimal" where
  "dec_quantize rm places x = quantize_to 28 rm places x"

text \<open>
  The operations of \<open>calculate_emi\<close> that take the result of a power.  A product of zero and
  an infinity, a quotient of two infinities and the quantization of an infinity are invalid;
  an infinity minus a finite value and an infinity over a finite value are infinite; a finite
  value over an infinity is zero.
\<close>

definition num_mul :: "decimal \<Rightarrow> number \<Rightarrow> error + number" where
  "num_mul a y =
     (case y of
        Finite b \<Rightarrow> Inr (Finite (dec_mul a b))
      | Infinity \<Rightarrow> (if coeff a = 0 then Inl InvalidOperation else Inr Infinity))"

definition num_sub :: "number \<Rightarrow> decimal \<Rightarrow> number" where
  "num_sub x b = (case x of Finite a \<Rightarrow> Finite (dec_sub a b) | Infinity \<Rightarrow> Infinity)"

definition num_div :: "number \<Rightarrow> number \<Rightarrow> error + number" where
  "num_div x y =
     (case x of
        Finite a \<Rightarrow>
          (case y of
             Finite b \<Rightarrow> and_then (dec_div a b) (\<lambda>q. Inr (Finite q))
           | Infinity \<Rightarrow> Inr (Finite (Dec 0 0)))
      | Infinity \<Rightarrow> (case y of Finite b \<Rightarrow> Inr Infinity | Infinity \<Rightarrow> Inl InvalidOperation))"

definition num_quantize :: "rounding \<Rightarrow> nat \<Rightarrow> number \<Rightarrow> error + decimal" where
  "num_quantize rm places x =
     (case x of Finite a \<Rightarrow> dec_quantize rm places a | Infinity \<Rightarrow> Inl InvalidOperation)"

text \<open>\<open>int(x)\<close> truncates towards zero.\<close>

definition dec_to_int :: "decimal \<Rightarrow> int" where
  "dec_to_int x =
     (if 0 \<le> expo x then coeff x * 10 ^ nat (expo x)
      else sgn (coeff x) * (\<bar>coeff x\<bar> div 10 ^ nat (- expo x)))"


section \<open>The EMI calculator\<close>

text \<open>
  \<open>calculate_emi(principal, annual_interest_rate, tenure_months)\<close> of \<open>utils.py\<close>, with
  \<open>princ\<close> for the parameter \<open>principal\<close>.  The operands of the numerator and of the
  denominator are evaluated in the order of the source.
\<close>

definition calculate_emi :: "decimal \<Rightarrow> decimal \<Rightarrow> int \<Rightarrow> error + decimal" where
  "calculate_emi princ annual_interest_rate tenure_months =
     (if dec_is_zero annual_interest_rate then dec_div princ (Dec tenure_months 0)
      else
        and_then (dec_div annual_interest_rate (Dec 100 0)) (\<lambda>per_cent.
        and_then (dec_div per_cent (Dec 12 0)) (\<lambda>monthly_interest_rate.
        if dec_is_zero monthly_interest_rate then
          and_then (dec_div princ (Dec tenure_months 0))
            (dec_quantize ROUND_HALF_UP 2)
        else
          and_then (dec_pow (dec_add (Dec 1 0) monthly_interest_rate) tenure_months) (\<lambda>growth.
          and_then (num_mul (dec_mul princ monthly_interest_rate) growth) (\<lambda>numerator.
          and_then (dec_pow (dec_add (Dec 1 0) monthly_interest_rate) tenure_months) (\<lambda>growth'.
          let denominator = num_sub growth' (Dec 1 0) in
          and_then (num_div numerator denominator)
            (num_quantize ROUND_HALF_UP 2)))))))"

section \<open>Customers, loans and dates\<close>

text \<open>
  The fields of the models \<open>Customer\<close> and \<open>Loan\<close> (\<open>credit_system/models.py\<close>) that the
  scoring core and the loan creation view read or write.  A Python \<open>date\<close> is a triple of year,
  month and day, ordered lexicographically.
\<close>

datatype date = Date (year: int) (month: int) (day: int)

definition date_less :: "date \<Rightarrow> date \<Rightarrow> bool" where
  "date_less a b =
     (year a < year b \<or> (year a = year b \<and>
       (month a < month b \<or> (month a = month b \<and> day a < day b))))"

datatype loan_status = PENDING | APPROVED | REJECTED | PAID

record customer =
  customer_id :: int
  monthly_salary :: int
  approved_limit :: decimal
  current_debt :: decimal

record loan =
  loan_id :: int
  loan_amount :: decimal
  tenure :: int
  interest_rate :: decimal
  monthly_repayment :: decimal
  emis_paid_on_time :: int
  start_date :: date
  end_date :: date
  status :: loan_status

text \<open>
  \<open>queryset.aggregate(Sum(field))[...] or Decimal('0.00')\<close>: the database adds exactly; the
  aggregate of no rows is \<open>None\<close> and a zero sum is falsy, and both are replaced by \<open>0.00\<close>.
\<close>

definition sum_or_zero :: "decimal list \<Rightarrow> decimal" where
  "sum_or_zero xs =
     (case xs of
        [] \<Rightarrow> Dec 0 (- 2)
      | y # ys \<Rightarrow> (let s = foldl dec_add_exact y ys in
                    if dec_is_zero s then Dec 0 (- 2) else s))"

section \<open>The credit score\<close>

text \<open>
  The loop of \<open>calculate_credit_score\<close> over the customer's loans; the state is the pair
  \<open>(total_expected_emis, total_emis_paid_on_time)\<close>, and \<open>today\<close> is
  \<open>timezone.now().date()\<close>.
\<close>

definition is_active :: "date \<Rightarrow> loan \<Rightarrow> bool" where
  "is_active today l = (status l = APPROVED \<and> date_less today (end_date l))"

definition months_passed_since_start :: "date \<Rightarrow> loan \<Rightarrow> int" where
  "months_passed_since_start today l =
     (year today - year (start_date l)) * 12 + (month today - month (start_date l))"

fun emi_totals :: "date \<Rightarrow> loan list \<Rightarrow> decimal \<times> decimal \<Rightarrow> decimal \<times> decimal" where
  "emi_totals today [] acc = acc"
| "emi_totals today (l # ls) (total_expected_emis, total_emis_paid_on_time) =
     (let paid = dec_add total_emis_paid_on_time (Dec (emis_paid_on_time l) 0);
          expected =
            (if is_active today l
             then dec_add total_expected_emis
                    (Dec (min (tenure l) (months_passed_since_start today l)) 0)
             else dec_add total_expected_emis (Dec (tenure l) 0))
      in emi_totals today ls (expected, paid))"

text \<open>
  Lines 50 to 85 of \<open>utils.py\<close>: the running \<open>credit_score\<close> after the four penalties, before it
  is truncated and clamped.
\<close>

definition penalised_score :: "customer \<Rightarrow> loan list \<Rightarrow> date \<Rightarrow> error + decimal" where
  "penalised_score c loans today =
     (let credit_score = Dec 100 0;
          totals = emi_totals today loans (Dec 0 0, Dec 0 0);
          total_expected_emis = fst totals;
          total_emis_paid_on_time = snd totals
      in
      and_then
        (if dec_less (Dec 0 0) total_expected_emis then
           and_then (dec_div total_emis_paid_on_time total_expected_emis) (\<lambda>on_time_ratio.
             if dec_less on_time_ratio (Dec 9 (- 1))
             then Inr (dec_sub credit_score
                        (dec_mul (dec_sub (Dec 1 0) on_time_ratio) (Dec 30 0)))
             else Inr credit_score)
         else Inr credit_score) (\<lambda>credit_score.
      let num_loans = int (length loans);
          credit_score =
            (if 5 < num_loans
             then dec_sub credit_score (dec_mul (Dec (num_loans - 5) 0) (Dec 3 0))
             else credit_score);
          current_year = year today;
          current_year_loans_count =
            int (length (filter (\<lambda>l. year (start_date l) = current_year) loans));
          credit_score =
            (if 2 < current_year_loans_count
             then dec_sub credit_score (dec_mul (Dec (current_year_loans_count - 2) 0) (Dec 5 0))
             else credit_score);
          total_approved_volume = sum_or_zero (map loan_amount loans)
      in
      if dec_less (Dec 0 0) (approved_limit c) then
        and_then (dec_div total_approved_volume (approved_limit c)) (\<lambda>utilization_ratio.
          if dec_less (Dec 8 (- 1)) utilization_ratio
          then Inr (dec_sub credit_score
                     (dec_mul (dec_sub utilization_ratio (Dec 8 (- 1))) (Dec 20 0)))
          else Inr credit_score)
      else Inr credit_score))"

text \<open>The body of the \<open>try\<close> block of \<open>calculate_credit_score\<close>.\<close>

definition credit_score_body :: "customer \<Rightarrow> loan list \<Rightarrow> date \<Rightarrow> error + int" where
  "credit_score_body c loans today =
     (if dec_less (approved_limit c) (current_debt c) then Inr 0
      else if loans = [] then Inr 100
      else and_then (penalised_score c loans today) (\<lambda>credit_score.
             Inr (max 0 (min 100 (dec_to_int credit_score)))))"

text \<open>\<open>except Exception\<close>: any error of the body is logged and the score is 0.\<close>

definition calculate_credit_score :: "customer \<Rightarrow> loan list \<Rightarrow> date \<Rightarrow> int" where
  "calculate_credit_score c loans today =
     (case credit_score_body c loans today of Inl e \<Rightarrow> 0 | Inr score \<Rightarrow> score)"

section \<open>The interest rate correction\<close>

definition determine_corrected_interest_rate :: "int \<Rightarrow> decimal \<Rightarrow> error + decimal" where
  "determine_corrected_interest_rate credit_score requested_rate =
     (if 50 < credit_score then Inr requested_rate
      else if 30 < credit_score \<and> credit_score \<le> 50
        then dec_quantize ROUND_HALF_EVEN 2 (py_max (Dec 1200 (- 2)) requested_rate)
      else if 10 < credit_score \<and> credit_score \<le> 30
        then dec_quantize ROUND_HALF_EVEN 2 (py_max (Dec 1600 (- 2)) requested_rate)
      else Inr (Dec 10000 (- 2)))"

section \<open>The eligibility decision\<close>

text \<open>
  The message of a decision is one of the fixed strings of the source or the formatted
  string of the remaining-limit veto, which interpolates the requested amount and the
  remaining limit.
\<close>

datatype message =
    Msg string
  | ExceedsRemainingLimit decimal decimal

type_synonym decision = "bool \<times> message \<times> decimal \<times> decimal"

text \<open>The body of the \<open>try\<close> block of \<open>check_loan_approval\<close>.\<close>

definition loan_approval_body ::
  "customer \<Rightarrow> loan list \<Rightarrow> date \<Rightarrow> decimal \<Rightarrow> decimal \<Rightarrow> int \<Rightarrow> error + decision" where
  "loan_approval_body c loans today amount requested_interest_rate tenure_months =
     (let credit_score = calculate_credit_score c loans today in
      and_then (determine_corrected_interest_rate credit_score requested_interest_rate)
        (\<lambda>corrected_interest_rate.
      and_then (calculate_emi amount corrected_interest_rate tenure_months)
        (\<lambda>potential_monthly_installment.
      let current_active_loans = filter (is_active today) loans;
          sum_current_emis = sum_or_zero (map monthly_repayment current_active_loans)
      in
      if dec_less (dec_mul (Dec 50 (- 2)) (Dec (monthly_salary c) 0))
                  (dec_add sum_current_emis potential_monthly_installment)
      then Inr (False,
                Msg ''Sum of current EMIs (including potential new loan) exceeds 50% of monthly salary.'',
                corrected_interest_rate, potential_monthly_installment)
      else if credit_score \<le> 10
      then Inr (False, Msg ''Credit score is too low.'',
                corrected_interest_rate, potential_monthly_installment)
      else
        let remaining_approved_limit = dec_sub (approved_limit c) (current_debt c) in
        if dec_less remaining_approved_limit amount
        then Inr (False, ExceedsRemainingLimit amount remaining_approved_limit,
                  corrected_interest_rate, potential_monthly_installment)
        else Inr (True, Msg ''Loan approved.'',
                  corrected_interest_rate, potential_monthly_installment))))"

text \<open>\<open>except Exception\<close>: any error of the body is logged and turned into a rejection.\<close>

definition check_loan_approval ::
  "customer \<Rightarrow> loan list \<Rightarrow> date \<Rightarrow> decimal \<Rightarrow> decimal \<Rightarrow> int \<Rightarrow> decision" where
  "check_loan_approval c loans today amount requested_interest_rate tenure_months =
     (case loan_approval_body c loans today amount requested_interest_rate tenure_months of
        Inl e \<Rightarrow> (False, Msg ''Internal error during eligibility check.'',
                  requested_interest_rate, Dec 0 (- 2))
      | Inr d \<Rightarrow> d)"

section \<open>Calendar arithmetic and loan creation\<close>

text \<open>
  Python's \<open>date\<close> arithmetic works on proleptic Gregorian ordinals (day 1 is 0001-01-01); the
  conversions below are those of the \<open>datetime\<close> module.  \<open>date + timedelta\<close> raises
  \<open>OverflowError\<close> outside the years 1 to 9999, and \<open>timedelta(days=n)\<close> does so beyond
  999999999 days.
\<close>

definition is_leap :: "int \<Rightarrow> bool" where
  "is_leap y = (y mod 4 = 0 \<and> (y mod 100 \<noteq> 0 \<or> y mod 400 = 0))"

definition days_before_year :: "int \<Rightarrow> int" where
  "days_before_year y = (let y1 = y - 1 in y1 * 365 + y1 div 4 - y1 div 100 + y1 div 400)"

definition DAYS_IN_MONTH :: "int list" where
  "DAYS_IN_MONTH = [31, 28, 31, 30, 31, 30, 31, 31, 30, 31, 30, 31]"

definition DAYS_BEFORE_MONTH :: "int list" where
  "DAYS_BEFORE_MONTH = [0, 31, 59, 90, 120, 151, 181, 212, 243, 273, 304, 334]"

definition days_before_month :: "int \<Rightarrow> int \<Rightarrow> int" where
  "days_before_month y m =
     DAYS_BEFORE_MONTH ! nat (m - 1) + (if 2 < m \<and> is_leap y then 1 else 0)"

definition ymd2ord :: "date \<Rightarrow> int" where
  "ymd2ord d = days_before_year (year d) + days_before_month (year d) (month d) + day d"

definition ord2ymd :: "int \<Rightarrow> date" where
  "ord2ymd n =
     (let n0 = n - 1;
          n400 = n0 div 146097; r400 = n0 mod 146097;
          n100 = r400 div 36524; r100 = r400 mod 36524;
          n4 = r100 div 1461; r4 = r100 mod 1461;
          n1 = r4 div 365; r1 = r4 mod 365;
          y = n400 * 400 + 1 + n100 * 100 + n4 * 4 + n1
      in
      if n1 = 4 \<or> n100 = 4 then Date (y - 1) 12 31
      else
        let leapyear = (n1 = 3 \<and> (n4 \<noteq> 24 \<or> n100 = 3));
            m = (r1 + 50) div 32;
            preceding = DAYS_BEFORE_MONTH ! nat (m - 1) + (if 2 < m \<and> leapyear then 1 else 0)
        in
        if r1 < preceding then
          (let m' = m - 1;
               preceding' = preceding
                 - (DAYS_IN_MONTH ! nat (m' - 1) + (if m' = 2 \<and> leapyear then 1 else 0))
           in Date y m' (r1 - preceding' + 1))
        else Date y m (r1 - preceding + 1))"

definition MAXORDINAL :: int where
  "MAXORDINAL = 3652059"

definition timedelta_days :: "int \<Rightarrow> error + int" where
  "timedelta_days n = (if \<bar>n\<bar> \<le> 999999999 then Inr n else Inl OverflowError)"

definition date_add_days :: "date \<Rightarrow> int \<Rightarrow> error + date" where
  "date_add_days d n =
     (let ordinal = ymd2ord d + n in
      if 0 < ordinal \<and> ordinal \<le> MAXORDINAL then Inr (ord2ymd ordinal) else Inl OverflowError)"

text \<open>
  Line 127 of \<open>views.py\<close>:
  \<open>(start_date + timedelta(days=30 * tenure)).replace(day=1) - timedelta(days=1)\<close>.
\<close>

definition loan_end_date :: "date \<Rightarrow> int \<Rightarrow> error + date" where
  "loan_end_date start tenure_months =
     and_then (timedelta_days (30 * tenure_months)) (\<lambda>delta.
     and_then (date_add_days start delta) (\<lambda>d.
     date_add_days (Date (year d) (month d) 1) (- 1)))"

text \<open>
  A \<open>DecimalField\<close> of a model is written to its column with \<open>decimal_places\<close> places and at
  most \<open>max_digits\<close> digits.  How a value with more places is rounded, and which exception a
  value with too many digits raises, depends on the database backend that \<open>settings.py\<close>
  selects; that file is not among the sources, so the conversion is a parameter \<open>store\<close> of
  the operations that write.  \<open>format_number\<close> is the conversion that Django applies itself
  for the backends that take formatted numbers: a quantization under a context of precision
  \<open>max_digits\<close>.
\<close>

type_synonym column_writer = "int \<Rightarrow> nat \<Rightarrow> decimal \<Rightarrow> error + decimal"

definition format_number :: column_writer where
  "format_number max_digits decimal_places x =
     quantize_to max_digits ROUND_HALF_EVEN decimal_places x"

text \<open>
  \<open>Customer.save\<close>: a zero approved limit is replaced by 36 monthly salaries rounded to the
  nearest 100000, and the record is written; the result is the customer as stored.
\<close>

definition customer_save :: "column_writer \<Rightarrow> customer \<Rightarrow> error + customer" where
  "customer_save store c =
     and_then
       (if dec_is_zero (approved_limit c) then
          (let calculated_limit = dec_mul (Dec 36 0) (Dec (monthly_salary c) 0) in
           and_then (dec_div calculated_limit (Dec 100000 0)) (\<lambda>q.
           and_then (dec_quantize ROUND_HALF_UP 0 q) (\<lambda>lakhs.
           Inr (c\<lparr>approved_limit := dec_mul lakhs (Dec 100000 0)\<rparr>))))
        else Inr c) (\<lambda>c1.
     and_then (store 15 2 (approved_limit c1)) (\<lambda>limit.
     and_then (store 10 2 (current_debt c1)) (\<lambda>debt.
     Inr (c1\<lparr>approved_limit := limit, current_debt := debt\<rparr>))))"

text \<open>
  \<open>Loan.objects.create(...)\<close> as called by the view \<open>create_loan\<close>: the record as stored,
  with the key \<open>new_id\<close> that the database assigns.
\<close>

definition loan_create ::
  "column_writer \<Rightarrow> int \<Rightarrow> decimal \<Rightarrow> int \<Rightarrow> decimal \<Rightarrow> decimal \<Rightarrow> date \<Rightarrow> date \<Rightarrow>
     error + loan" where
  "loan_create store new_id amount tenure_months rate installment start end =
     and_then (store 10 2 amount) (\<lambda>stored_amount.
     and_then (store 5 2 rate) (\<lambda>stored_rate.
     and_then (store 10 2 installment) (\<lambda>stored_installment.
     Inr \<lparr>loan_id = new_id, loan_amount = stored_amount, tenure = tenure_months,
          interest_rate = stored_rate, monthly_repayment = stored_installment,
          emis_paid_on_time = 0, start_date = start, end_date = end,
          status = APPROVED\<rparr>)))"

text \<open>
  The view \<open>create_loan\<close> after the request has been validated and the customer has been
  found: the decision is taken, and on approval a loan record is created and the customer's
  debt is raised.  The result is the customer and the loans as stored afterwards, together
  with the exception that ended the view, or else the identifier of the new loan, if any, and
  the decision.  The view does not run in a transaction of its own and catches every
  exception itself, so a loan that was created stays stored when the later write of the
  customer fails.
\<close>

definition create_loan ::
  "column_writer \<Rightarrow> customer \<Rightarrow> loan list \<Rightarrow> date \<Rightarrow> int \<Rightarrow> decimal \<Rightarrow> decimal \<Rightarrow> int \<Rightarrow>
     (customer \<times> loan list) \<times> (error + int option \<times> decision)" where
  "create_loan store c loans today new_id amount rate tenure_months =
     (let decision = check_loan_approval c loans today amount rate tenure_months;
          approval_status = fst decision;
          final_interest_rate = fst (snd (snd decision));
          monthly_installment = snd (snd (snd decision))
      in
      if approval_status then
        (case loan_end_date today tenure_months of
           Inl e \<Rightarrow> ((c, loans), Inl e)
         | Inr end \<Rightarrow>
             (case loan_create store new_id amount tenure_months final_interest_rate
                     monthly_installment today end of
                Inl e \<Rightarrow> ((c, loans), Inl e)
              | Inr l \<Rightarrow>
                  (case customer_save store
                          (c\<lparr>current_debt := dec_add (current_debt c) amount\<rparr>) of
                     Inl e \<Rightarrow> ((c, loans @ [l]), Inl e)
                   | Inr c' \<Rightarrow> ((c', loans @ [l]), Inr (Some new_id, decision)))))
      else ((c, loans), Inr (None, decision)))"

section \<open>The amortisation formula in exact arithmetic\<close>

text \<open>
  The value that \<open>calculate_emi\<close> approximates, as the specification writes it:
  \<open>principal / tenure\<close> at rate zero and otherwise
  \<open>principal * r * (1 + r)^tenure / ((1 + r)^tenure - 1)\<close> with the monthly rate
  \<open>r = annual_rate / 100 / 12\<close>, computed on rational numbers without any rounding.
\<close>

definition emi_exact :: "rat \<Rightarrow> rat \<Rightarrow> nat \<Rightarrow> rat" where
  "emi_exact p rate n =
     (if rate = 0 then p / of_nat n
      else let r = rate / 100 / 12 in p * r * (1 + r) ^ n / ((1 + r) ^ n - 1))"

section \<open>Rounding of rational numbers\<close>

text \<open>
  The roundings of the decimal arithmetic as functions on rational numbers, against which
  the operations on coefficients are verified below.  \<open>rat_round rm x\<close> is the integer nearest
  to \<open>x\<close>, a tie going to the even neighbour or away from zero.  \<open>adjusted x\<close> is the exponent
  \<open>k\<close> of a non-zero \<open>x\<close> with \<open>10^k \<le> |x| < 10^(k+1)\<close>.  \<open>round_sig prec x\<close> rounds \<open>x\<close> to
  \<open>prec\<close> significant digits, ties to even, and \<open>quantize_rat rm places x\<close> rounds \<open>x\<close> to a
  number of decimal places.
\<close>

definition rat_round :: "rounding \<Rightarrow> rat \<Rightarrow> int" where
  "rat_round rm x =
     (let y = \<bar>x\<bar>; f = \<lfloor>y\<rfloor>; d = y - of_int f;
          up = (case rm of
                  ROUND_HALF_EVEN \<Rightarrow> 1 / 2 < d \<or> (d = 1 / 2 \<and> odd f)
                | ROUND_HALF_UP \<Rightarrow> 1 / 2 \<le> d)
      in (if x < 0 then - 1 else 1) * (if up then f + 1 else f))"

definition adjusted :: "rat \<Rightarrow> int" where
  "adjusted x =
     (let (a, b) = quotient_of \<bar>x\<bar>;
          d = ndigits a - ndigits b
      in if 10 powi d \<le> \<bar>x\<bar> then d else d - 1)"

definition round_sig :: "int \<Rightarrow> rat \<Rightarrow> rat" where
  "round_sig prec x =
     (if x = 0 then 0
      else let e = adjusted x - (prec - 1)
           in of_int (rat_round ROUND_HALF_EVEN (x / 10 powi e)) * 10 powi e)"

definition quantize_rat :: "rounding \<Rightarrow> nat \<Rightarrow> rat \<Rightarrow> rat" where
  "quantize_rat rm places x = of_int (rat_round rm (x * 10 ^ places)) / 10 ^ places"

section \<open>Sample records\<close>

text \<open>
  A customer with a monthly salary of 100000 and the approved limit 3600000 that
  \<open>Customer.save\<close> derives from it: without debt, with a debt equal to the limit, and with a
  debt one hundredth above the limit; and a closed loan of that customer, half of whose
  instalments were paid on time.
\<close>

definition customer_fresh :: customer where
  "customer_fresh = \<lparr>customer_id = 1, monthly_salary = 100000,
     approved_limit = Dec 3600000 0, current_debt = Dec 0 0\<rparr>"

definition customer_at_limit :: customer where
  "customer_at_limit = \<lparr>customer_id = 2, monthly_salary = 100000,
     approved_limit = Dec 3600000 0, current_debt = Dec 3600000 0\<rparr>"

definition customer_over_limit :: customer where
  "customer_over_limit = \<lparr>customer_id = 3, monthly_salary = 100000,
     approved_limit = Dec 3600000 0, current_debt = Dec 360000001 (- 2)\<rparr>"

definition closed_loan :: loan where
  "closed_loan = \<lparr>loan_id = 7, loan_amount = Dec 350000000 (- 2), tenure = 12,
     interest_rate = Dec 1200 (- 2), monthly_repayment = Dec 31097076 (- 2),
     emis_paid_on_time = 6, start_date = Date 2025 1 1, end_date = Date 2025 12 31,
     status = APPROVED\<rparr>"

definition some_day :: date where
  "some_day = Date 2026 11 4"

text \<open>
  Names for the two sides of the first veto of \<open>check_loan_approval\<close>: half of the monthly
  salary, and the sum of the instalments of the loans that are active today.
\<close>

definition half_of_salary :: "customer \<Rightarrow> decimal" where
  "half_of_salary c = dec_mul (Dec 50 (- 2)) (Dec (monthly_salary c) 0)"

definition active_emi_sum :: "date \<Rightarrow> loan list \<Rightarrow> decimal" where
  "active_emi_sum today loans =
     sum_or_zero (map monthly_repayment (filter (is_active today) loans))"

section \<open>Basic facts\<close>

lemma and_then_Inl [simp]: "and_then (Inl e) f = Inl e"
  by (simp add: and_then_def)

lemma and_then_Inr [simp]: "and_then (Inr v) f = f v"
  by (simp add: and_then_def)

lemma and_then_Inr_iff: "and_then m f = Inr v \<longleftrightarrow> (\<exists>u. m = Inr u \<and> f u = Inr v)"
  by (cases m) simp_all

lemma ndigits_small: "n < 10 \<Longrightarrow> ndigits n = 1"
  by (simp add: ndigits_def digits_from.simps)

lemma dec_fix_small: "\<bar>coeff x\<bar> < 10 \<Longrightarrow> dec_fix x = x"
  by (simp add: dec_fix_def fix_to_def ndigits_small)

lemma dec_div_by_zero:
  "coeff b = 0 \<Longrightarrow> dec_div a b = Inl DivisionByZero \<or> dec_div a b = Inl InvalidOperation"
  by (simp add: dec_div_def div_to_def)

lemma dec_div_nonzero: "coeff b \<noteq> 0 \<Longrightarrow> \<exists>q. dec_div a b = Inr q"
  by (simp add: dec_div_def div_to_def)

lemma dec_less_zero: "dec_less (Dec 0 0) b \<longleftrightarrow> 0 < coeff b"
  by (simp add: dec_less_def Let_def zero_less_mult_iff)


lemma dec_sub_self: "dec_sub a a = Dec 0 (expo a)"
  by (simp add: dec_sub_def dec_add_exact_def dec_neg_def dec_fix_small)


subsection \<open>Numeric values\<close>









lemma quantize_expo: "dec_quantize rm places x = Inr v \<Longrightarrow> expo v = - int places"
  by (auto simp add: dec_quantize_def quantize_to_def Let_def split: if_splits)

lemma num_quantize_expo: "num_quantize rm places x = Inr v \<Longrightarrow> expo v = - int places"
  by (cases x) (auto simp add: num_quantize_def dest: quantize_expo)



subsection \<open>The EMI calculator\<close>

lemma calculate_emi_zero_rate:
  "dec_is_zero rate \<Longrightarrow> calculate_emi princ rate n = dec_div princ (Dec n 0)"
  by (simp add: calculate_emi_def)

lemma calculate_emi_quantized:
  assumes "\<not> dec_is_zero rate" "calculate_emi princ rate n = Inr v"
  shows "expo v = - 2"
  using assms
  by (auto simp add: calculate_emi_def and_then_Inr_iff Let_def
      dest: quantize_expo num_quantize_expo split: if_splits)

lemma calculate_emi_tenure_zero:
  "calculate_emi princ rate 0 = Inl DivisionByZero \<or>
   calculate_emi princ rate 0 = Inl InvalidOperation"
proof (cases "dec_is_zero rate")
  case True
  then show ?thesis
    using dec_div_by_zero [of "Dec 0 0" princ] by (simp add: calculate_emi_def)
next
  case False
  obtain pc where pc: "dec_div rate (Dec 100 0) = Inr pc"
    using dec_div_nonzero [of "Dec 100 0" rate] by auto
  obtain m where m: "dec_div pc (Dec 12 0) = Inr m"
    using dec_div_nonzero [of "Dec 12 0" pc] by auto
  show ?thesis
  proof (cases "dec_is_zero m")
    case True
    with False pc m show ?thesis
      using dec_div_by_zero [of "Dec 0 0" princ] by (auto simp add: calculate_emi_def)
  next
    case mz: False
    show ?thesis
    proof (cases "coeff (dec_add (Dec 1 0) m) = 0")
      case True
      with False pc m mz show ?thesis
        by (simp add: calculate_emi_def dec_pow_def)
    next
      case nz: False
      have den: "dec_sub (Dec 1 0) (Dec 1 0) = Dec 0 0"
        by (simp add: dec_sub_self)
      from False pc m mz nz show ?thesis
        using dec_div_by_zero [of "Dec 0 0" "dec_mul (dec_mul princ m) (Dec 1 0)"]
        by (auto simp add: calculate_emi_def dec_pow_def den num_mul_def num_sub_def
            num_div_def)
    qed
  qed
qed

subsection \<open>The amortisation formula\<close>

lemma emi_exact_sum:
  assumes "0 \<le> rate" "0 < n"
  shows "emi_exact p rate n = p * (1 + rate / 1200) ^ n / (\<Sum>j<n. (1 + rate / 1200) ^ j)"
proof (cases "rate = 0")
  case True
  then show ?thesis by (simp add: emi_exact_def)
next
  case False
  define x where "x = 1 + rate / 1200"
  have r: "rate / 100 / 12 = x - 1" by (simp add: x_def)
  have "x - 1 \<noteq> 0" using False by (simp add: x_def)
  have geo: "x ^ n - 1 = (x - 1) * (\<Sum>j<n. x ^ j)"
    by (simp add: power_diff_1_eq)
  have "emi_exact p rate n = p * (rate / 100 / 12) * (1 + rate / 100 / 12) ^ n
      / ((1 + rate / 100 / 12) ^ n - 1)"
    using False by (simp only: emi_exact_def Let_def if_False)
  also have "\<dots> = p * (x - 1) * x ^ n / (x ^ n - 1)"
    by (simp only: r) (simp add: x_def)
  also have "\<dots> = p * (x - 1) * x ^ n / ((x - 1) * (\<Sum>j<n. x ^ j))"
    by (simp only: geo)
  also have "\<dots> = p * x ^ n / (\<Sum>j<n. x ^ j)"
    using \<open>x - 1 \<noteq> 0\<close> by simp
  finally show ?thesis by (simp add: x_def)
qed

lemma power_cross_less:
  fixes x1 x2 :: rat
  assumes "0 < x1" "x1 < x2" "j < n"
  shows "x1 ^ n * x2 ^ j < x2 ^ n * x1 ^ j"
proof -
  have d: "x1 ^ (n - j) < x2 ^ (n - j)"
    using assms by (intro power_strict_mono) simp_all
  have e1: "x1 ^ n = x1 ^ j * x1 ^ (n - j)" and e2: "x2 ^ n = x2 ^ j * x2 ^ (n - j)"
    using assms(3) by (simp_all add: power_add [symmetric])
  have pos: "0 < x1 ^ j * x2 ^ j" using assms by simp
  have "x1 ^ n * x2 ^ j = (x1 ^ j * x2 ^ j) * x1 ^ (n - j)" by (simp add: e1)
  also have "\<dots> < (x1 ^ j * x2 ^ j) * x2 ^ (n - j)"
    using d pos by (simp only: mult_less_cancel_left_pos)
  also have "\<dots> = x2 ^ n * x1 ^ j" by (simp add: e2)
  finally show ?thesis .
qed

lemma emi_exact_strict_mono:
  assumes "0 < p" "0 < n" "0 \<le> rate1" "rate1 < rate2"
  shows "emi_exact p rate1 n < emi_exact p rate2 n"
proof -
  define x1 where "x1 = 1 + rate1 / 1200"
  define x2 where "x2 = 1 + rate2 / 1200"
  have x: "0 < x1" "x1 < x2" using assms by (simp_all add: x1_def x2_def)
  then have "0 < x2" by simp
  have ne: "{..<n} \<noteq> {}" using assms(2) by auto
  have T1: "0 < (\<Sum>j<n. x1 ^ j)" using x ne by (intro sum_pos) simp_all
  have T2: "0 < (\<Sum>j<n. x2 ^ j)" using \<open>0 < x2\<close> ne by (intro sum_pos) simp_all
  have "(\<Sum>j<n. x1 ^ n * x2 ^ j) < (\<Sum>j<n. x2 ^ n * x1 ^ j)"
    using ne x by (intro sum_strict_mono) (simp_all add: power_cross_less)
  then have cross: "x1 ^ n * (\<Sum>j<n. x2 ^ j) < x2 ^ n * (\<Sum>j<n. x1 ^ j)"
    by (simp only: sum_distrib_left)
  have "x1 ^ n / (\<Sum>j<n. x1 ^ j) < x2 ^ n / (\<Sum>j<n. x2 ^ j)"
    using cross T1 T2 by (simp add: divide_simps mult.commute)
  then have "p * (x1 ^ n / (\<Sum>j<n. x1 ^ j)) < p * (x2 ^ n / (\<Sum>j<n. x2 ^ j))"
    using assms(1) by (simp only: mult_less_cancel_left_pos)
  moreover have "emi_exact p rate1 n = p * (x1 ^ n / (\<Sum>j<n. x1 ^ j))"
    using assms by (simp add: emi_exact_sum x1_def)
  moreover have "emi_exact p rate2 n = p * (x2 ^ n / (\<Sum>j<n. x2 ^ j))"
    using assms by (simp add: emi_exact_sum x2_def)
  ultimately show ?thesis by simp
qed

subsection \<open>The credit score\<close>

lemma penalised_score_total: "\<exists>cs. penalised_score c loans today = Inr cs"
proof -
  define tot where "tot = emi_totals today loans (Dec 0 0, Dec 0 0)"
  have first: "\<exists>cs1. (if dec_less (Dec 0 0) (fst tot) then
           and_then (dec_div (snd tot) (fst tot)) (\<lambda>on_time_ratio.
             if dec_less on_time_ratio (Dec 9 (- 1))
             then Inr (dec_sub (Dec 100 0)
                        (dec_mul (dec_sub (Dec 1 0) on_time_ratio) (Dec 30 0)))
             else Inr (Dec 100 0))
         else Inr (Dec 100 0)) = Inr cs1"
  proof (cases "dec_less (Dec 0 0) (fst tot)")
    case True
    then have "coeff (fst tot) \<noteq> 0" by (simp add: dec_less_zero)
    then obtain q where "dec_div (snd tot) (fst tot) = Inr q"
      using dec_div_nonzero by blast
    with True show ?thesis by simp
  next
    case False
    then show ?thesis by simp
  qed
  then obtain cs1 where cs1: "(if dec_less (Dec 0 0) (fst tot) then
           and_then (dec_div (snd tot) (fst tot)) (\<lambda>on_time_ratio.
             if dec_less on_time_ratio (Dec 9 (- 1))
             then Inr (dec_sub (Dec 100 0)
                        (dec_mul (dec_sub (Dec 1 0) on_time_ratio) (Dec 30 0)))
             else Inr (Dec 100 0))
         else Inr (Dec 100 0)) = Inr cs1" ..
  show ?thesis
  proof (cases "dec_less (Dec 0 0) (approved_limit c)")
    case True
    then have "coeff (approved_limit c) \<noteq> 0" by (simp add: dec_less_zero)
    then obtain u where "dec_div (sum_or_zero (map loan_amount loans)) (approved_limit c) = Inr u"
      using dec_div_nonzero by blast
    with True cs1 show ?thesis
      unfolding penalised_score_def Let_def tot_def [symmetric] by simp
  next
    case False
    with cs1 show ?thesis
      unfolding penalised_score_def Let_def tot_def [symmetric] by simp
  qed
qed


lemma score_within_limit:
  assumes "\<not> dec_less (approved_limit c) (current_debt c)"
  shows "\<exists>cs. penalised_score c loans today = Inr cs \<and>
     calculate_credit_score c loans today =
       (if loans = [] then 100 else max 0 (min 100 (dec_to_int cs)))"
proof -
  obtain cs where "penalised_score c loans today = Inr cs"
    using penalised_score_total by blast
  with assms show ?thesis
    by (auto simp add: calculate_credit_score_def credit_score_body_def)
qed

subsection \<open>The eligibility decision\<close>




lemma check_error:
  "loan_approval_body c loans today amount rate n = Inl e \<Longrightarrow>
   check_loan_approval c loans today amount rate n =
     (False, Msg ''Internal error during eligibility check.'', rate, Dec 0 (- 2))"
  by (simp add: check_loan_approval_def)

lemma vetoes:
  assumes "determine_corrected_interest_rate (calculate_credit_score c loans today) rate
      = Inr rate'"
    and "calculate_emi amount rate' n = Inr emi"
  shows "check_loan_approval c loans today amount rate n =
     (if dec_less (half_of_salary c) (dec_add (active_emi_sum today loans) emi)
      then (False,
            Msg ''Sum of current EMIs (including potential new loan) exceeds 50% of monthly salary.'',
            rate', emi)
      else if calculate_credit_score c loans today \<le> 10
      then (False, Msg ''Credit score is too low.'', rate', emi)
      else if dec_less (dec_sub (approved_limit c) (current_debt c)) amount
      then (False,
            ExceedsRemainingLimit amount (dec_sub (approved_limit c) (current_debt c)),
            rate', emi)
      else (True, Msg ''Loan approved.'', rate', emi))"
  using assms
  by (simp add: check_loan_approval_def loan_approval_body_def Let_def half_of_salary_def
      active_emi_sum_def)


section \<open>Claims about the credit score\<close>

text \<open>
  Claim C8 says that every customer with an empty loan history scores 100.  The check of the
  debt against the approved limit comes first in \<open>calculate_credit_score\<close>, so a customer whose
  debt exceeds the limit scores 0 even without any loan.
\<close>

theorem no_history_over_limit_scores_zero:
  "calculate_credit_score customer_over_limit [] some_day = 0"
  by code_simp

text \<open>
  Claim C8, amended: a customer with an empty loan history whose current debt does not exceed
  the approved limit scores 100, whatever the date.
\<close>

theorem no_history_scores_100:
  assumes "\<not> dec_less (approved_limit c) (current_debt c)"
  shows "calculate_credit_score c [] today = 100"
  using assms by (simp add: calculate_credit_score_def credit_score_body_def)

theorem no_history_scores_100_witness:
  "\<not> dec_less (approved_limit customer_fresh) (current_debt customer_fresh) \<and>
   calculate_credit_score customer_fresh [] some_day = 100"
proof -
  have h: "\<not> dec_less (approved_limit customer_fresh) (current_debt customer_fresh)"
    by code_simp
  from h no_history_scores_100 [OF h, of some_day] show ?thesis by (rule conjI)
qed

text \<open>
  Claim C10: the short-circuit to score 0 needs a debt strictly above the limit.  For a
  customer whose current debt equals the approved limit, the four penalties are computed
  without error, and the score is 100 for an empty loan history and otherwise the penalised
  score truncated to an integer and clamped to the range from 0 to 100.
\<close>

theorem short_circuit_needs_strict_excess:
  assumes "\<not> dec_less (approved_limit c) (current_debt c)"
    and "\<not> dec_less (current_debt c) (approved_limit c)"
  shows "\<exists>cs. penalised_score c loans today = Inr cs \<and>
     calculate_credit_score c loans today =
       (if loans = [] then 100 else max 0 (min 100 (dec_to_int cs)))"
  using assms(1) by (rule score_within_limit)

theorem short_circuit_needs_strict_excess_witness:
  "\<not> dec_less (approved_limit customer_at_limit) (current_debt customer_at_limit) \<and>
   \<not> dec_less (current_debt customer_at_limit) (approved_limit customer_at_limit) \<and>
   calculate_credit_score customer_at_limit [closed_loan] some_day = 81"
proof -
  have h1: "\<not> dec_less (approved_limit customer_at_limit) (current_debt customer_at_limit)"
    by code_simp
  have h2: "\<not> dec_less (current_debt customer_at_limit) (approved_limit customer_at_limit)"
    by code_simp
  have p: "penalised_score customer_at_limit [closed_loan] some_day
      = Inr (Dec 8155555555555555555555555556 (- 26))"
    by code_simp
  have t: "max 0 (min 100 (dec_to_int (Dec 8155555555555555555555555556 (- 26)))) = 81"
    by code_simp
  from short_circuit_needs_strict_excess [OF h1 h2, of "[closed_loan]" some_day] p t
  have "calculate_credit_score customer_at_limit [closed_loan] some_day = 81"
    by auto
  with h1 h2 show ?thesis by simp
qed

section \<open>Claims about the EMI calculator\<close>

text \<open>
  Claim C4 says that a tenure of zero or less fails with an InvalidArgument error rather than
  a division by zero.  \<open>calculate_emi\<close> validates nothing: with tenure 0 the division by zero
  is what is raised, and with tenure -1 a negative instalment is returned.
\<close>

theorem emi_nonpositive_tenure_not_rejected:
  "calculate_emi (Dec 100 0) (Dec 0 0) 0 = Inl DivisionByZero \<and>
   calculate_emi (Dec 100 0) (Dec 0 0) (- 1) = Inr (Dec (- 100) 0)"
  by code_simp

text \<open>
  Claim C4, amended: \<open>calculate_emi\<close> has no check of its arguments and no error of its own.
  With a tenure of 0 it fails for every principal and rate, with the decimal module's
  \<open>DivisionByZero\<close>, or with its \<open>InvalidOperation\<close> when the dividend is zero as well or
  the power is \<open>0 ** 0\<close>.  With a negative tenure and rate 0 it does not fail: it returns the
  quotient \<open>principal / tenure_months\<close>.
\<close>

theorem emi_tenure_unchecked:
  "(calculate_emi princ rate 0 = Inl DivisionByZero \<or>
    calculate_emi princ rate 0 = Inl InvalidOperation) \<and>
   (n < 0 \<and> dec_is_zero rate0 \<longrightarrow>
      calculate_emi princ rate0 n = dec_div princ (Dec n 0) \<and>
      (\<exists>q. calculate_emi princ rate0 n = Inr q))"
proof (intro conjI impI)
  show "calculate_emi princ rate 0 = Inl DivisionByZero \<or>
    calculate_emi princ rate 0 = Inl InvalidOperation"
    by (rule calculate_emi_tenure_zero)
next
  assume a: "n < 0 \<and> dec_is_zero rate0"
  then show "calculate_emi princ rate0 n = dec_div princ (Dec n 0)"
    by (simp add: calculate_emi_zero_rate)
  from a have "coeff (Dec n 0) \<noteq> 0" by simp
  then obtain q where "dec_div princ (Dec n 0) = Inr q"
    using dec_div_nonzero by blast
  with a show "\<exists>q. calculate_emi princ rate0 n = Inr q"
    by (simp add: calculate_emi_zero_rate)
qed

theorem emi_tenure_unchecked_witness:
  "(- 1 :: int) < 0 \<and> dec_is_zero (Dec 0 0) \<and>
   calculate_emi (Dec 100 0) (Dec 0 0) (- 1) = Inr (Dec (- 100) 0) \<and>
   (calculate_emi (Dec 100 0) (Dec 12 0) 0 = Inl DivisionByZero \<or>
    calculate_emi (Dec 100 0) (Dec 12 0) 0 = Inl InvalidOperation)"
proof -
  have h: "(- 1 :: int) < 0 \<and> dec_is_zero (Dec 0 0)" by (simp add: dec_is_zero_def)
  have d: "dec_div (Dec 100 0) (Dec (- 1) 0) = Inr (Dec (- 100) 0)" by code_simp
  from emi_tenure_unchecked [of "Dec 100 0" "Dec 12 0" "- 1" "Dec 0 0"] h d
  show ?thesis by simp
qed

section \<open>Claims about the interest rate correction\<close>




section \<open>Claims about the eligibility decision\<close>

text \<open>
  Claim C2: whenever the corrected rate and the candidate instalment are computed, the
  decision is taken by three vetoes in a fixed order: first the sum of the instalments of the
  active loans plus the candidate instalment against half of the monthly salary, then the
  score against 10, then the requested amount against the remaining approved limit.  The first
  veto that fires fixes the message, and every outcome, rejections included, carries the
  corrected rate and the candidate instalment.
\<close>

theorem vetoes_in_fixed_order:
  assumes "determine_corrected_interest_rate (calculate_credit_score c loans today) rate
      = Inr rate'"
    and "calculate_emi amount rate' n = Inr emi"
  shows "check_loan_approval c loans today amount rate n =
     (if dec_less (half_of_salary c) (dec_add (active_emi_sum today loans) emi)
      then (False,
            Msg ''Sum of current EMIs (including potential new loan) exceeds 50% of monthly salary.'',
            rate', emi)
      else if calculate_credit_score c loans today \<le> 10
      then (False, Msg ''Credit score is too low.'', rate', emi)
      else if dec_less (dec_sub (approved_limit c) (current_debt c)) amount
      then (False,
            ExceedsRemainingLimit amount (dec_sub (approved_limit c) (current_debt c)),
            rate', emi)
      else (True, Msg ''Loan approved.'', rate', emi))"
  using assms by (rule vetoes)

theorem vetoes_in_fixed_order_witness:
  "determine_corrected_interest_rate
     (calculate_credit_score customer_over_limit [] some_day) (Dec 12 0)
     = Inr (Dec 10000 (- 2)) \<and>
   calculate_emi (Dec 600000 0) (Dec 10000 (- 2)) 24 = Inr (Dec 5857934 (- 2)) \<and>
   check_loan_approval customer_over_limit [] some_day (Dec 600000 0) (Dec 12 0) 24 =
     (False,
      Msg ''Sum of current EMIs (including potential new loan) exceeds 50% of monthly salary.'',
      Dec 10000 (- 2), Dec 5857934 (- 2))"
proof -
  have h1: "determine_corrected_interest_rate
      (calculate_credit_score customer_over_limit [] some_day) (Dec 12 0)
      = Inr (Dec 10000 (- 2))"
    by code_simp
  have h2: "calculate_emi (Dec 600000 0) (Dec 10000 (- 2)) 24 = Inr (Dec 5857934 (- 2))"
    by code_simp
  have v1: "dec_less (half_of_salary customer_over_limit)
      (dec_add (active_emi_sum some_day []) (Dec 5857934 (- 2)))"
    by code_simp
  from vetoes_in_fixed_order [OF h1 h2] v1 h1 h2 show ?thesis by simp
qed

text \<open>
  Claim C3: the body of the decision can raise in two places only, the correction of the rate
  and the computation of the instalment.  Whenever one of them raises, the result is a
  rejection with the generic internal-error message, the requested rate as it was passed in,
  and an instalment of 0.00.
\<close>

theorem internal_error_rejects:
  "(loan_approval_body c loans today amount rate n = Inl e \<longleftrightarrow>
      determine_corrected_interest_rate (calculate_credit_score c loans today) rate = Inl e \<or>
      (\<exists>rate'. determine_corrected_interest_rate (calculate_credit_score c loans today) rate
          = Inr rate' \<and> calculate_emi amount rate' n = Inl e)) \<and>
   (loan_approval_body c loans today amount rate n = Inl e \<longrightarrow>
      check_loan_approval c loans today amount rate n =
        (False, Msg ''Internal error during eligibility check.'', rate, Dec 0 (- 2)))"
proof (intro conjI impI)
  show "loan_approval_body c loans today amount rate n = Inl e \<longleftrightarrow>
      determine_corrected_interest_rate (calculate_credit_score c loans today) rate = Inl e \<or>
      (\<exists>rate'. determine_corrected_interest_rate (calculate_credit_score c loans today) rate
          = Inr rate' \<and> calculate_emi amount rate' n = Inl e)"
  proof (cases "determine_corrected_interest_rate (calculate_credit_score c loans today) rate")
    case (Inl e')
    then show ?thesis by (simp add: loan_approval_body_def Let_def)
  next
    case (Inr rate')
    then show ?thesis
      by (cases "calculate_emi amount rate' n")
        (simp_all add: loan_approval_body_def Let_def)
  qed
next
  assume "loan_approval_body c loans today amount rate n = Inl e"
  then show "check_loan_approval c loans today amount rate n =
      (False, Msg ''Internal error during eligibility check.'', rate, Dec 0 (- 2))"
    by (rule check_error)
qed

theorem internal_error_rejects_witness:
  "determine_corrected_interest_rate (calculate_credit_score customer_fresh [] some_day)
     (Dec 12 0) = Inr (Dec 12 0) \<and>
   calculate_emi (Dec 500000 0) (Dec 12 0) 0 = Inl DivisionByZero \<and>
   loan_approval_body customer_fresh [] some_day (Dec 500000 0) (Dec 12 0) 0
     = Inl DivisionByZero \<and>
   check_loan_approval customer_fresh [] some_day (Dec 500000 0) (Dec 12 0) 0 =
     (False, Msg ''Internal error during eligibility check.'', Dec 12 0, Dec 0 (- 2))"
proof -
  have h1: "determine_corrected_interest_rate
      (calculate_credit_score customer_fresh [] some_day) (Dec 12 0) = Inr (Dec 12 0)"
    by code_simp
  have h2: "calculate_emi (Dec 500000 0) (Dec 12 0) 0 = Inl DivisionByZero"
    by code_simp
  from internal_error_rejects
    [of customer_fresh "[]" some_day "Dec 500000 0" "Dec 12 0" 0 DivisionByZero] h1 h2
  show ?thesis by blast
qed




section \<open>Claims about loan creation\<close>

lemma create_loan_approved:
  assumes "check_loan_approval c loans today amount rate n = (True, m, r, emi)"
    and "loan_end_date today n = Inr e"
    and "loan_create store new_id amount n r emi today e = Inr l"
    and "customer_save store (c\<lparr>current_debt := dec_add (current_debt c) amount\<rparr>) = Inr c'"
  shows "create_loan store c loans today new_id amount rate n =
     ((c', loans @ [l]), Inr (Some new_id, (True, m, r, emi)))"
  using assms by (simp add: create_loan_def Let_def)

lemma loan_create_fields:
  assumes "loan_create store new_id amount n r emi start e = Inr l"
  shows "status l = APPROVED \<and> start_date l = start \<and> end_date l = e \<and> tenure l = n"
  using assms by (auto simp add: loan_create_def and_then_Inr_iff)

text \<open>
  Claim C6 says that an approved loan is stored with status APPROVED, today as its start date,
  an end date of the start date plus the tenure in calendar months, aligned to the end of a
  month, and that the customer's debt grows by the loan amount.  The end date is computed as
  the last day of the month before the one that contains the day 30 times the tenure after
  the start: a loan of one month approved on 2024-01-01 is stored with the end date
  2023-12-31, a day before it starts.  The status, the start date and the new debt are as
  claimed.
\<close>

theorem loan_ends_before_it_starts:
  "create_loan format_number customer_fresh [] (Date 2024 1 1) 41 (Dec 10000 0) (Dec 12 0) 1 =
     ((customer_fresh\<lparr>approved_limit := Dec 360000000 (- 2),
         current_debt := Dec 1000000 (- 2)\<rparr>,
       [\<lparr>loan_id = 41, loan_amount = Dec 1000000 (- 2), tenure = 1,
         interest_rate = Dec 1200 (- 2), monthly_repayment = Dec 1010000 (- 2),
         emis_paid_on_time = 0, start_date = Date 2024 1 1, end_date = Date 2023 12 31,
         status = APPROVED\<rparr>]),
      Inr (Some 41, (True, Msg ''Loan approved.'', Dec 12 0, Dec 1010000 (- 2)))) \<and>
   date_less (Date 2023 12 31) (Date 2024 1 1)"
proof -
  have d: "check_loan_approval customer_fresh [] (Date 2024 1 1) (Dec 10000 0) (Dec 12 0) 1 =
      (True, Msg ''Loan approved.'', Dec 12 0, Dec 1010000 (- 2))"
    by code_simp
  have e: "loan_end_date (Date 2024 1 1) 1 = Inr (Date 2023 12 31)"
    by code_simp
  have l: "loan_create format_number 41 (Dec 10000 0) 1 (Dec 12 0) (Dec 1010000 (- 2))
      (Date 2024 1 1) (Date 2023 12 31) =
      Inr \<lparr>loan_id = 41, loan_amount = Dec 1000000 (- 2), tenure = 1,
         interest_rate = Dec 1200 (- 2), monthly_repayment = Dec 1010000 (- 2),
         emis_paid_on_time = 0, start_date = Date 2024 1 1, end_date = Date 2023 12 31,
         status = APPROVED\<rparr>"
    by code_simp
  have c: "customer_save format_number
      (customer_fresh\<lparr>current_debt := dec_add (current_debt customer_fresh) (Dec 10000 0)\<rparr>)
      = Inr (customer_fresh\<lparr>approved_limit := Dec 360000000 (- 2),
          current_debt := Dec 1000000 (- 2)\<rparr>)"
    by code_simp
  have b: "date_less (Date 2023 12 31) (Date 2024 1 1)"
    by code_simp
  from create_loan_approved [OF d e l c] b show ?thesis by simp
qed

end
